theory Spec2Isabelle
  imports Main "HOL-Library.Char_ord"
begin

section \<open>Password policy (utils/password.util.ts)\<close>

text \<open>
  JavaScript strings are modelled as \<^typ>\<open>string\<close>; one \<^typ>\<open>char\<close> stands for one
  UTF-16 code unit below 256, so \<^term>\<open>length\<close> is the \<^verbatim>\<open>.length\<close> of the source
  on such strings. (Code units from 256 on are in none of the classes tested below.)
  The result object \<^verbatim>\<open>{ isValid: boolean; error?: string }\<close> is a record whose
  optional member is an option.
\<close>

record strength =
  isValid :: bool
  error :: "string option"

text \<open>The template literal \<^verbatim>\<open>${minLength}\<close>: the decimal digits of a number.\<close>

fun decimal :: "nat \<Rightarrow> string" where
  "decimal n = (if n < 10 then [char_of (48 + n)] else decimal (n div 10) @ [char_of (48 + n mod 10)])"

text \<open>The four character classes tested by the regular expressions of the source.\<close>

definition upper_class :: "char \<Rightarrow> bool" where
  "upper_class c = (CHR ''A'' \<le> c \<and> c \<le> CHR ''Z'')"

definition lower_class :: "char \<Rightarrow> bool" where
  "lower_class c = (CHR ''a'' \<le> c \<and> c \<le> CHR ''z'')"

definition digit_class :: "char \<Rightarrow> bool" where
  "digit_class c = (CHR ''0'' \<le> c \<and> c \<le> CHR ''9'')"

definition special_class :: "char \<Rightarrow> bool" where
  "special_class c = (c \<in> set (''!@#$%^&*(),.?'' @ [CHR 0x22] @ '':{}|<>''))"

text \<open>\<^verbatim>\<open>/[...]/.test(s)\<close>: some code unit of \<open>s\<close> is in the class.\<close>

definition regex_test :: "(char \<Rightarrow> bool) \<Rightarrow> string \<Rightarrow> bool" where
  "regex_test cls s = list_ex cls s"

definition validatePasswordStrength :: "string \<Rightarrow> nat \<Rightarrow> strength" where
  "validatePasswordStrength password minLength =
     (if length password < minLength then
        \<lparr>isValid = False,
         error = Some (''Password must be at least '' @ decimal minLength @ '' characters long'')\<rparr>
      else if \<not> regex_test upper_class password then
        \<lparr>isValid = False, error = Some ''Password must contain at least one uppercase letter''\<rparr>
      else if \<not> regex_test lower_class password then
        \<lparr>isValid = False, error = Some ''Password must contain at least one lowercase letter''\<rparr>
      else if \<not> regex_test digit_class password then
        \<lparr>isValid = False, error = Some ''Password must contain at least one number''\<rparr>
      else if \<not> regex_test special_class password then
        \<lparr>isValid = False, error = Some ''Password must contain at least one special character''\<rparr>
      else \<lparr>isValid = True, error = None\<rparr>)"

text \<open>
  The policy in the words of the specification: five rules in a fixed order, each with
  its message; the answer is the message of the first rule that fails, and valid when
  none fails.
\<close>

definition policy_rules :: "((string \<Rightarrow> bool) \<times> string) list" where
  "policy_rules =
     [(\<lambda>p. 8 \<le> length p, ''Password must be at least 8 characters long''),
      (regex_test upper_class, ''Password must contain at least one uppercase letter''),
      (regex_test lower_class, ''Password must contain at least one lowercase letter''),
      (regex_test digit_class, ''Password must contain at least one number''),
      (regex_test special_class, ''Password must contain at least one special character'')]"

definition validateStrength_spec :: "string \<Rightarrow> strength" where
  "validateStrength_spec p =
     (case find (\<lambda>r. \<not> fst r p) policy_rules of
        None \<Rightarrow> \<lparr>isValid = True, error = None\<rparr>
      | Some r \<Rightarrow> \<lparr>isValid = False, error = Some (snd r)\<rparr>)"

section \<open>Errors (constants/index.ts)\<close>

text \<open>
  The services throw plain \<^verbatim>\<open>Error\<close> objects with an optional \<^verbatim>\<open>statusCode\<close>
  attached. A thrown value is one of: such an error (status code if any, and message), an
  exception of the ORM (by its Prisma code), or an exception of the JWT library rethrown
  as it is.
\<close>

datatype jwt_exception = TokenExpiredError | NotBeforeError | JsonWebTokenError

datatype failure = AppError "nat option" string | PrismaError string | JwtError jwt_exception

definition BAD_REQUEST :: nat where "BAD_REQUEST = 400"
definition UNAUTHORIZED :: nat where "UNAUTHORIZED = 401"
definition FORBIDDEN :: nat where "FORBIDDEN = 403"
definition NOT_FOUND :: nat where "NOT_FOUND = 404"
definition CONFLICT :: nat where "CONFLICT = 409"

section \<open>JSON web tokens (config/jwt.config.ts)\<close>

text \<open>
  \<^verbatim>\<open>JwtPayload\<close> of types/index.ts. Times are whole seconds since the epoch.
\<close>

record jwt_payload =
  userId :: nat
  email :: string
  role :: "string option"
  iat :: "nat option"
  exp :: "nat option"

text \<open>
  The library \<^verbatim>\<open>jsonwebtoken\<close> is an external collaborator; its compact serialisation
  and HMAC are modelled symbolically. A token string is either \<open>Jws k p\<close>, the signed
  serialisation of payload \<open>p\<close> under key \<open>k\<close> (a deterministic function of \<open>k\<close> and
  \<open>p\<close>, so equal keys and payloads give the same string), or \<open>Junk s\<close>, any other string
  \<open>s\<close> (wrong shape). \<open>Junk []\<close> is the empty string.
\<close>

datatype token = Jws string jwt_payload | Junk string

record jwt_config =
  JWT_SECRET :: string
  ACCESS_TOKEN_EXPIRES_IN :: nat
  REFRESH_TOKEN_EXPIRES_IN :: nat

text \<open>The defaults of the source: 15 minutes and 7 days, in seconds.\<close>

definition default_config :: jwt_config where
  "default_config =
     \<lparr>JWT_SECRET = ''your-secret-key-change-in-production'',
      ACCESS_TOKEN_EXPIRES_IN = 900,
      REFRESH_TOKEN_EXPIRES_IN = 604800\<rparr>"

text \<open>
  \<^verbatim>\<open>jwt.sign(payload, secret, { expiresIn })\<close> at clock \<open>now\<close> (milliseconds): the library
  stamps \<open>iat\<close> with the clock in whole seconds and \<open>exp\<close> with \<open>iat + expiresIn\<close>.
\<close>

definition jwt_sign :: "jwt_payload \<Rightarrow> string \<Rightarrow> nat \<Rightarrow> nat \<Rightarrow> token" where
  "jwt_sign payload secret expiresIn now =
     Jws secret (payload\<lparr>iat := Some (now div 1000), exp := Some (now div 1000 + expiresIn)\<rparr>)"

text \<open>
  \<^verbatim>\<open>jwt.verify(token, secret)\<close> at clock \<open>now\<close>: shape and signature first, then the expiry
  (\<^verbatim>\<open>clockTimestamp >= payload.exp\<close> raises \<^verbatim>\<open>TokenExpiredError\<close>).
\<close>

definition jwt_verify :: "token \<Rightarrow> string \<Rightarrow> nat \<Rightarrow> jwt_exception + jwt_payload" where
  "jwt_verify t secret now =
     (case t of
        Junk s \<Rightarrow> Inl JsonWebTokenError
      | Jws k p \<Rightarrow>
          if k \<noteq> secret then Inl JsonWebTokenError
          else (case exp p of
                  None \<Rightarrow> Inr p
                | Some e \<Rightarrow> if now div 1000 \<ge> e then Inl TokenExpiredError else Inr p))"

text \<open>
  \<^verbatim>\<open>instanceof\<close> on the library's exception classes: \<^verbatim>\<open>TokenExpiredError\<close> and
  \<^verbatim>\<open>NotBeforeError\<close> extend \<^verbatim>\<open>JsonWebTokenError\<close>.
\<close>

definition instanceof_TokenExpiredError :: "jwt_exception \<Rightarrow> bool" where
  "instanceof_TokenExpiredError e = (e = TokenExpiredError)"

definition instanceof_JsonWebTokenError :: "jwt_exception \<Rightarrow> bool" where
  "instanceof_JsonWebTokenError e = (e \<in> {TokenExpiredError, NotBeforeError, JsonWebTokenError})"

definition generateAccessToken :: "jwt_config \<Rightarrow> nat \<Rightarrow> jwt_payload \<Rightarrow> token" where
  "generateAccessToken cfg now payload =
     jwt_sign payload (JWT_SECRET cfg) (ACCESS_TOKEN_EXPIRES_IN cfg) now"

definition generateRefreshToken :: "jwt_config \<Rightarrow> nat \<Rightarrow> jwt_payload \<Rightarrow> token" where
  "generateRefreshToken cfg now payload =
     jwt_sign payload (JWT_SECRET cfg) (REFRESH_TOKEN_EXPIRES_IN cfg) now"

record token_pair =
  accessToken :: token
  refreshToken :: token

definition generateTokens :: "jwt_config \<Rightarrow> nat \<Rightarrow> jwt_payload \<Rightarrow> token_pair" where
  "generateTokens cfg now payload =
     \<lparr>accessToken = generateAccessToken cfg now payload,
      refreshToken = generateRefreshToken cfg now payload\<rparr>"

definition verifyToken :: "jwt_config \<Rightarrow> nat \<Rightarrow> token \<Rightarrow> failure + jwt_payload" where
  "verifyToken cfg now t =
     (case jwt_verify t (JWT_SECRET cfg) now of
        Inr payload \<Rightarrow> Inr payload
      | Inl e \<Rightarrow>
          if instanceof_TokenExpiredError e then Inl (AppError None ''Token expired'')
          else if instanceof_JsonWebTokenError e then Inl (AppError None ''Invalid token'')
          else Inl (JwtError e))"

section \<open>The database\<close>

text \<open>
  Modelled from the spec: the Prisma schema (\<^verbatim>\<open>schema.prisma\<close>) is not among the
  sources. The tables follow the specification's data model and the columns the queries
  of the repositories name: users carry a nullable foreign key to their role, a nullable
  refresh token, and a nullable password-reset token with its expiry (milliseconds since
  the epoch); identifiers are auto-incremented from 1; \<open>isActive\<close> defaults to true;
  \<^verbatim>\<open>findUnique\<close> on user email, role name and permission name makes these columns
  unique.
\<close>

record user_row =
  user_id :: nat
  user_email :: string
  user_password :: string
  user_name :: "string option"
  user_isActive :: bool
  user_roleId :: "nat option"
  user_refreshToken :: "token option"
  user_passwordResetToken :: "string option"
  user_passwordResetExpires :: "nat option"

record role_row =
  role_id :: nat
  role_name :: string
  role_description :: "string option"
  role_isActive :: bool

record permission_row =
  permission_id :: nat
  permission_name :: string
  permission_description :: "string option"
  permission_isActive :: bool

record rolePermission_row =
  rp_roleId :: nat
  rp_permissionId :: nat

record db =
  users :: "user_row list"
  roles :: "role_row list"
  permissions :: "permission_row list"
  rolePermissions :: "rolePermission_row list"
  next_user_id :: nat
  next_role_id :: nat
  next_permission_id :: nat

definition empty_db :: db where
  "empty_db =
     \<lparr>users = [], roles = [], permissions = [], rolePermissions = [],
      next_user_id = 1, next_role_id = 1, next_permission_id = 1\<rparr>"

text \<open>\<^verbatim>\<open>include: { role: true }\<close>: the row of the role a user row points to, if any.\<close>

definition role_of :: "db \<Rightarrow> user_row \<Rightarrow> role_row option" where
  "role_of d u =
     (case user_roleId u of
        None \<Rightarrow> None
      | Some r \<Rightarrow> find (\<lambda>x. role_id x = r) (roles d))"

text \<open>
  \<^verbatim>\<open>db.user.update({ where: { id }, data })\<close>: Prisma raises P2025 when no row has the
  identifier; otherwise the row is rewritten and returned.
\<close>

definition user_update :: "db \<Rightarrow> nat \<Rightarrow> (user_row \<Rightarrow> user_row) \<Rightarrow> (failure + user_row) \<times> db" where
  "user_update d i f =
     (case find (\<lambda>u. user_id u = i) (users d) of
        None \<Rightarrow> (Inl (PrismaError ''P2025''), d)
      | Some u \<Rightarrow>
          (Inr (f u), d\<lparr>users := map (\<lambda>x. if user_id x = i then f x else x) (users d)\<rparr>))"

definition role_update :: "db \<Rightarrow> nat \<Rightarrow> (role_row \<Rightarrow> role_row) \<Rightarrow> (failure + role_row) \<times> db" where
  "role_update d i f =
     (case find (\<lambda>r. role_id r = i) (roles d) of
        None \<Rightarrow> (Inl (PrismaError ''P2025''), d)
      | Some r \<Rightarrow>
          (Inr (f r), d\<lparr>roles := map (\<lambda>x. if role_id x = i then f x else x) (roles d)\<rparr>))"

section \<open>AuthRepository (repositories/Auth.repository.ts)\<close>

definition AuthRepository_findByEmail :: "db \<Rightarrow> string \<Rightarrow> user_row option" where
  "AuthRepository_findByEmail d e = find (\<lambda>u. user_email u = e) (users d)"

definition AuthRepository_findByEmailWithPassword :: "db \<Rightarrow> string \<Rightarrow> (user_row \<times> role_row option) option" where
  "AuthRepository_findByEmailWithPassword d e =
     map_option (\<lambda>u. (u, role_of d u)) (find (\<lambda>u. user_email u = e) (users d))"

definition AuthRepository_findById :: "db \<Rightarrow> nat \<Rightarrow> (user_row \<times> role_row option) option" where
  "AuthRepository_findById d i =
     map_option (\<lambda>u. (u, role_of d u)) (find (\<lambda>u. user_id u = i) (users d))"

definition AuthRepository_emailExists :: "db \<Rightarrow> string \<Rightarrow> bool" where
  "AuthRepository_emailExists d e = (find (\<lambda>u. user_email u = e) (users d) \<noteq> None)"

record create_user_data =
  data_email :: string
  data_password :: string
  data_name :: "string option"
  data_roleId :: "nat option"

text \<open>
  \<^verbatim>\<open>roleId: data.roleId || 2\<close>: an absent (or zero) role identifier becomes the
  constant 2. The insert raises P2002 on a duplicate email and P2003 when the role row is
  missing; the counter advances with the insert.
\<close>

definition AuthRepository_create :: "db \<Rightarrow> create_user_data \<Rightarrow> (failure + user_row \<times> role_row option) \<times> db" where
  "AuthRepository_create d dat =
     (let rid = (case data_roleId dat of None \<Rightarrow> 2 | Some r \<Rightarrow> if r = 0 then 2 else r) in
      if find (\<lambda>u. user_email u = data_email dat) (users d) \<noteq> None then
        (Inl (PrismaError ''P2002''), d)
      else if find (\<lambda>x. role_id x = rid) (roles d) = None then
        (Inl (PrismaError ''P2003''), d)
      else
        (let u = \<lparr>user_id = next_user_id d, user_email = data_email dat,
                   user_password = data_password dat, user_name = data_name dat,
                   user_isActive = True, user_roleId = Some rid, user_refreshToken = None,
                   user_passwordResetToken = None, user_passwordResetExpires = None\<rparr>;
             d' = d\<lparr>users := users d @ [u], next_user_id := Suc (next_user_id d)\<rparr>
         in (Inr (u, role_of d' u), d')))"

definition AuthRepository_updateRefreshToken :: "db \<Rightarrow> nat \<Rightarrow> token option \<Rightarrow> (failure + user_row) \<times> db" where
  "AuthRepository_updateRefreshToken d i t = user_update d i (\<lambda>u. u\<lparr>user_refreshToken := t\<rparr>)"

definition AuthRepository_updatePasswordResetToken :: "db \<Rightarrow> nat \<Rightarrow> string option \<Rightarrow> nat option \<Rightarrow> (failure + user_row) \<times> db" where
  "AuthRepository_updatePasswordResetToken d i t expiresAt =
     user_update d i (\<lambda>u. u\<lparr>user_passwordResetToken := t, user_passwordResetExpires := expiresAt\<rparr>)"

definition AuthRepository_updatePassword :: "db \<Rightarrow> nat \<Rightarrow> string \<Rightarrow> (failure + user_row) \<times> db" where
  "AuthRepository_updatePassword d i hashedPassword =
     user_update d i (\<lambda>u. u\<lparr>user_password := hashedPassword, user_passwordResetToken := None,
                              user_passwordResetExpires := None\<rparr>)"

section \<open>Role model constants (models/Role.model.ts)\<close>

definition ROLE_NAMES_ADMIN :: string where "ROLE_NAMES_ADMIN = ''admin''"
definition ROLE_NAMES_USER :: string where "ROLE_NAMES_USER = ''user''"

text \<open>\<^verbatim>\<open>Object.values(PERMISSIONS)\<close>, in the order of the object literal.\<close>

definition PERMISSIONS :: "string list" where
  "PERMISSIONS =
     [''users.read'', ''users.create'', ''users.update'', ''users.delete'', ''users.manage'',
      ''roles.read'', ''roles.create'', ''roles.update'', ''roles.delete'', ''roles.manage'',
      ''permissions.read'', ''permissions.manage'',
      ''admin.access'']"

definition DEFAULT_ROLE_PERMISSIONS :: "string \<Rightarrow> string list" where
  "DEFAULT_ROLE_PERMISSIONS r =
     (if r = ROLE_NAMES_ADMIN then
        [''admin.access'', ''users.manage'', ''roles.manage'', ''permissions.manage'']
      else if r = ROLE_NAMES_USER then [''users.read'']
      else [])"

record CreateRoleInput =
  input_name :: string
  input_description :: "string option"
  input_permissionIds :: "nat list option"

record UpdateRoleInput =
  upd_name :: "string option"
  upd_description :: "string option"
  upd_isActive :: "bool option"
  upd_permissionIds :: "nat list option"

record CreatePermissionInput =
  perm_input_name :: string
  perm_input_description :: "string option"

section \<open>RoleRepository and PermissionRepository (repositories/Role.repository.ts)\<close>

text \<open>
  \<^verbatim>\<open>orderBy: { name: 'asc' }\<close> sorts by the collation of the database, which the sources
  do not fix; the rows are returned in table order. The callers modelled here use the
  result only through membership of names and a map keyed by name.
\<close>

definition RoleRepository_findAll :: "db \<Rightarrow> role_row list" where
  "RoleRepository_findAll d = filter role_isActive (roles d)"

definition RoleRepository_findById :: "db \<Rightarrow> nat \<Rightarrow> role_row option" where
  "RoleRepository_findById d i = find (\<lambda>r. role_id r = i) (roles d)"

definition RoleRepository_findByName :: "db \<Rightarrow> string \<Rightarrow> role_row option" where
  "RoleRepository_findByName d n = find (\<lambda>r. role_name r = n) (roles d)"

text \<open>
  \<^verbatim>\<open>db.role.create\<close> with the nested creation of the join rows, one transaction: P2002
  on a duplicate role name or a repeated (role, permission) pair, P2003 on a permission
  identifier with no row.
\<close>

definition RoleRepository_create :: "db \<Rightarrow> CreateRoleInput \<Rightarrow> (failure + role_row) \<times> db" where
  "RoleRepository_create d dat =
     (let ids = (case input_permissionIds dat of None \<Rightarrow> [] | Some xs \<Rightarrow> xs) in
      if find (\<lambda>r. role_name r = input_name dat) (roles d) \<noteq> None \<or> \<not> distinct ids then
        (Inl (PrismaError ''P2002''), d)
      else if list_ex (\<lambda>i. find (\<lambda>p. permission_id p = i) (permissions d) = None) ids then
        (Inl (PrismaError ''P2003''), d)
      else
        (let r = \<lparr>role_id = next_role_id d, role_name = input_name dat,
                   role_description = input_description dat, role_isActive = True\<rparr>
         in (Inr r,
             d\<lparr>roles := roles d @ [r],
               rolePermissions := rolePermissions d @
                 map (\<lambda>permissionId. \<lparr>rp_roleId = role_id r, rp_permissionId = permissionId\<rparr>) ids,
               next_role_id := Suc (next_role_id d)\<rparr>)))"

text \<open>
  \<open>RoleRepository.update\<close>. When \<^verbatim>\<open>permissionIds\<close> is given, the join rows of the role
  are deleted and, if the list is not empty, created anew (\<^verbatim>\<open>createMany\<close>: P2002 on a
  repeated pair, P2003 on a permission identifier with no row); the three statements are
  not one transaction, so a failure leaves what was done before it. Then the role row is
  updated: a member that is \<^verbatim>\<open>undefined\<close> leaves its column as it is; P2002 when
  another row has the new name.
\<close>

definition RoleRepository_update :: "db \<Rightarrow> nat \<Rightarrow> UpdateRoleInput \<Rightarrow> (failure + role_row) \<times> db" where
  "RoleRepository_update d i dat =
     (let r1 =
        (case upd_permissionIds dat of
           None \<Rightarrow> (Inr (), d)
         | Some ids \<Rightarrow>
             (let d1 = d\<lparr>rolePermissions := filter (\<lambda>rp. rp_roleId rp \<noteq> i) (rolePermissions d)\<rparr> in
              if length ids > 0 then
                (if \<not> distinct ids then (Inl (PrismaError ''P2002''), d1)
                 else if list_ex (\<lambda>k. find (\<lambda>p. permission_id p = k) (permissions d) = None) ids
                 then (Inl (PrismaError ''P2003''), d1)
                 else (Inr (),
                       d1\<lparr>rolePermissions := rolePermissions d1 @
                            map (\<lambda>permissionId. \<lparr>rp_roleId = i, rp_permissionId = permissionId\<rparr>) ids\<rparr>))
              else (Inr (), d1)))
      in case r1 of
           (Inl e, d2) \<Rightarrow> (Inl e, d2)
         | (Inr _, d2) \<Rightarrow>
             if (case upd_name dat of
                   None \<Rightarrow> False
                 | Some n \<Rightarrow> list_ex (\<lambda>x. role_name x = n \<and> role_id x \<noteq> i) (roles d2))
             then (Inl (PrismaError ''P2002''), d2)
             else
               role_update d2 i
                 (\<lambda>r. r\<lparr>role_name := (case upd_name dat of None \<Rightarrow> role_name r | Some n \<Rightarrow> n),
                        role_description :=
                          (case upd_description dat of None \<Rightarrow> role_description r | Some x \<Rightarrow> Some x),
                        role_isActive :=
                          (case upd_isActive dat of None \<Rightarrow> role_isActive r | Some b \<Rightarrow> b)\<rparr>))"

text \<open>Soft delete: \<^verbatim>\<open>db.role.update({ where: { id }, data: { isActive: false } })\<close>.\<close>

definition RoleRepository_delete :: "db \<Rightarrow> nat \<Rightarrow> (failure + role_row) \<times> db" where
  "RoleRepository_delete d i = role_update d i (\<lambda>r. r\<lparr>role_isActive := False\<rparr>)"

text \<open>
  \<^verbatim>\<open>rolePermission.findFirst({ where: { roleId, permission: { name, isActive: true } } })\<close>
  is not null: some join row of the role points to an active permission of that name.
\<close>

definition RoleRepository_hasPermission :: "db \<Rightarrow> nat \<Rightarrow> string \<Rightarrow> bool" where
  "RoleRepository_hasPermission d roleId permissionName =
     list_ex
       (\<lambda>rp. rp_roleId rp = roleId \<and>
          (case find (\<lambda>p. permission_id p = rp_permissionId rp) (permissions d) of
             None \<Rightarrow> False
           | Some p \<Rightarrow> permission_name p = permissionName \<and> permission_isActive p))
       (rolePermissions d)"


definition PermissionRepository_findAll :: "db \<Rightarrow> permission_row list" where
  "PermissionRepository_findAll d = filter permission_isActive (permissions d)"

definition PermissionRepository_findByName :: "db \<Rightarrow> string \<Rightarrow> permission_row option" where
  "PermissionRepository_findByName d n = find (\<lambda>p. permission_name p = n) (permissions d)"

text \<open>Soft delete of a permission: P2025 when no row has the identifier.\<close>

definition PermissionRepository_delete :: "db \<Rightarrow> nat \<Rightarrow> (failure + permission_row) \<times> db" where
  "PermissionRepository_delete d i =
     (case find (\<lambda>p. permission_id p = i) (permissions d) of
        None \<Rightarrow> (Inl (PrismaError ''P2025''), d)
      | Some p \<Rightarrow>
          (Inr (p\<lparr>permission_isActive := False\<rparr>),
           d\<lparr>permissions :=
               map (\<lambda>x. if permission_id x = i then x\<lparr>permission_isActive := False\<rparr> else x)
                 (permissions d)\<rparr>))"

text \<open>
  \<^verbatim>\<open>createMany({ data, skipDuplicates: true })\<close>: a row whose name is already in the
  table is skipped; the result is the number of rows inserted.
\<close>

fun PermissionRepository_createMany :: "db \<Rightarrow> CreatePermissionInput list \<Rightarrow> nat \<times> db" where
  "PermissionRepository_createMany d [] = (0, d)"
| "PermissionRepository_createMany d (x # xs) =
     (if find (\<lambda>p. permission_name p = perm_input_name x) (permissions d) \<noteq> None then
        PermissionRepository_createMany d xs
      else
        (let p = \<lparr>permission_id = next_permission_id d, permission_name = perm_input_name x,
                   permission_description = perm_input_description x, permission_isActive = True\<rparr>;
             res = PermissionRepository_createMany
                     (d\<lparr>permissions := permissions d @ [p],
                        next_permission_id := Suc (next_permission_id d)\<rparr>) xs
         in (Suc (fst res), snd res)))"

section \<open>RoleService (services/Role.service.ts)\<close>

definition initializeDefaultRolesAndPermissions :: "db \<Rightarrow> (failure + unit) \<times> db" where
  "initializeDefaultRolesAndPermissions d =
     (let permissionNames = PERMISSIONS;
          existingPermissions = PermissionRepository_findAll d;
          existingPermissionNames = map permission_name existingPermissions;
          permissionsToCreate =
            map (\<lambda>n. \<lparr>perm_input_name = n, perm_input_description = Some (''Permission: '' @ n)\<rparr>)
              (filter (\<lambda>n. n \<notin> set existingPermissionNames) permissionNames);
          d1 = (if length permissionsToCreate > 0
                then snd (PermissionRepository_createMany d permissionsToCreate) else d);
          allPermissions = PermissionRepository_findAll d1;
          permissionMap = map_of (rev (map (\<lambda>p. (permission_name p, permission_id p)) allPermissions));
          adminRole = RoleRepository_findByName d1 ROLE_NAMES_ADMIN;
          r2 = (if adminRole = None then
                  (case RoleRepository_create d1
                          \<lparr>input_name = ROLE_NAMES_ADMIN,
                           input_description = Some ''Administrator role with full access'',
                           input_permissionIds =
                             Some (List.map_filter permissionMap (DEFAULT_ROLE_PERMISSIONS ROLE_NAMES_ADMIN))\<rparr> of
                     (Inl e, d2) \<Rightarrow> (Inl e, d2)
                   | (Inr _, d2) \<Rightarrow> (Inr (), d2))
                else (Inr (), d1))
      in case r2 of
           (Inl e, d2) \<Rightarrow> (Inl e, d2)
         | (Inr _, d2) \<Rightarrow>
             (let userRole = RoleRepository_findByName d2 ROLE_NAMES_USER in
              if userRole = None then
                (case RoleRepository_create d2
                        \<lparr>input_name = ROLE_NAMES_USER,
                         input_description = Some ''Standard user role with basic permissions'',
                         input_permissionIds =
                           Some (List.map_filter permissionMap (DEFAULT_ROLE_PERMISSIONS ROLE_NAMES_USER))\<rparr> of
                   (Inl e, d3) \<Rightarrow> (Inl e, d3)
                 | (Inr _, d3) \<Rightarrow> (Inr (), d3))
              else (Inr (), d2)))"

definition getRoleById :: "db \<Rightarrow> nat \<Rightarrow> failure + role_row" where
  "getRoleById d i =
     (case RoleRepository_findById d i of
        None \<Rightarrow> Inl (AppError (Some NOT_FOUND) ''Role not found'')
      | Some r \<Rightarrow> Inr r)"

definition createRole :: "db \<Rightarrow> CreateRoleInput \<Rightarrow> (failure + role_row) \<times> db" where
  "createRole d dat =
     (if RoleRepository_findByName d (input_name dat) \<noteq> None then
        (Inl (AppError (Some CONFLICT) ''Role with this name already exists''), d)
      else RoleRepository_create d dat)"

text \<open>
  \<open>updateRole\<close>: the role must exist; a new name that is not empty (\<^verbatim>\<open>if (data.name)\<close>)
  must not be the name of another role. There is no check on the name the role has.
\<close>

definition updateRole :: "db \<Rightarrow> nat \<Rightarrow> UpdateRoleInput \<Rightarrow> (failure + role_row) \<times> db" where
  "updateRole d i dat =
     (case getRoleById d i of
        Inl e \<Rightarrow> (Inl e, d)
      | Inr _ \<Rightarrow>
          if (case upd_name dat of
                None \<Rightarrow> False
              | Some n \<Rightarrow>
                  if n = [] then False
                  else (case RoleRepository_findByName d n of
                          None \<Rightarrow> False
                        | Some existing \<Rightarrow> role_id existing \<noteq> i))
          then (Inl (AppError (Some CONFLICT) ''Role with this name already exists''), d)
          else RoleRepository_update d i dat)"

definition deleteRole :: "db \<Rightarrow> nat \<Rightarrow> (failure + role_row) \<times> db" where
  "deleteRole d i =
     (case getRoleById d i of
        Inl e \<Rightarrow> (Inl e, d)
      | Inr _ \<Rightarrow>
          (let r = RoleRepository_findById d i in
           if (case r of
                 None \<Rightarrow> False
               | Some x \<Rightarrow> role_name x = ROLE_NAMES_ADMIN \<or> role_name x = ROLE_NAMES_USER)
           then (Inl (AppError (Some BAD_REQUEST) ''Cannot delete system roles''), d)
           else RoleRepository_delete d i))"

text \<open>
  \<^verbatim>\<open>db.user.findUnique({ where: { id: userId }, include: { role: true } })\<close>, then the
  repository's check on the identifier of the role.
\<close>

definition userHasPermission :: "db \<Rightarrow> nat \<Rightarrow> string \<Rightarrow> bool" where
  "userHasPermission d uid permissionName =
     (case find (\<lambda>u. user_id u = uid) (users d) of
        None \<Rightarrow> False
      | Some u \<Rightarrow>
          (case role_of d u of
             None \<Rightarrow> False
           | Some r \<Rightarrow> RoleRepository_hasPermission d (role_id r) permissionName))"

section \<open>Permission middleware (middleware/permissions.middleware.ts)\<close>

text \<open>
  The request carries the authenticated user, if any. A middleware either answers with
  a status and an error text, or calls \<^verbatim>\<open>next()\<close>. The permission checks only
  read the database and do not throw, so the \<^verbatim>\<open>catch\<close> branch (status 500) has no
  counterpart.
\<close>

record request_user =
  req_id :: nat
  req_email :: string
  req_role :: "string option"

datatype outcome = Respond nat string | Next

text \<open>\<^verbatim>\<open>permissions.join(', ')\<close>.\<close>

fun join :: "string list \<Rightarrow> string" where
  "join [] = []"
| "join [x] = x"
| "join (x # y # ys) = x @ '', '' @ join (y # ys)"

definition hasAnyPermission :: "db \<Rightarrow> nat \<Rightarrow> string list \<Rightarrow> bool" where
  "hasAnyPermission d uid ps =
     (let permissionChecks = map (\<lambda>p. userHasPermission d uid p) ps
      in list_ex (\<lambda>has. has = True) permissionChecks)"

definition hasAllPermissions :: "db \<Rightarrow> nat \<Rightarrow> string list \<Rightarrow> bool" where
  "hasAllPermissions d uid ps =
     (let permissionChecks = map (\<lambda>p. userHasPermission d uid p) ps
      in list_all (\<lambda>has. has = True) permissionChecks)"

text \<open>
  A missing user or a falsy identifier (0) answers 401 with \<open>''Authentication required''\<close>.
\<close>

definition requireAnyPermission :: "string list \<Rightarrow> db \<Rightarrow> request_user option \<Rightarrow> outcome" where
  "requireAnyPermission ps d req =
     (case req of
        None \<Rightarrow> Respond UNAUTHORIZED ''Authentication required''
      | Some u \<Rightarrow>
          if req_id u = 0 then Respond UNAUTHORIZED ''Authentication required''
          else if \<not> hasAnyPermission d (req_id u) ps then
            Respond FORBIDDEN (''One of these permissions required: '' @ join ps)
          else Next)"

definition requireAllPermissions :: "string list \<Rightarrow> db \<Rightarrow> request_user option \<Rightarrow> outcome" where
  "requireAllPermissions ps d req =
     (case req of
        None \<Rightarrow> Respond UNAUTHORIZED ''Authentication required''
      | Some u \<Rightarrow>
          if req_id u = 0 then Respond UNAUTHORIZED ''Authentication required''
          else if \<not> hasAllPermissions d (req_id u) ps then
            Respond FORBIDDEN (''All of these permissions required: '' @ join ps)
          else Next)"

section \<open>Password hashing (utils/password.util.ts)\<close>

text \<open>
  Argon2 is an external collaborator: \<open>argon2_hash salt password\<close> is the encoded hash
  for a salt the library draws at random, and \<open>argon2_verify hash password\<close> is \<open>None\<close>
  when the library throws (a malformed hash).
\<close>

record argon2 =
  argon2_hash :: "string \<Rightarrow> string \<Rightarrow> string"
  argon2_verify :: "string \<Rightarrow> string \<Rightarrow> bool option"

definition hashPassword :: "argon2 \<Rightarrow> string \<Rightarrow> string \<Rightarrow> string" where
  "hashPassword a salt password = argon2_hash a salt password"

definition comparePassword :: "argon2 \<Rightarrow> string \<Rightarrow> string \<Rightarrow> bool" where
  "comparePassword a password hash =
     (case argon2_verify a hash password of None \<Rightarrow> False | Some b \<Rightarrow> b)"

section \<open>AuthService (services/Auth.service.ts)\<close>

text \<open>Letters of the messages outside ASCII, as their code units.\<close>

definition ntilde :: string where "ntilde = [CHR 0xF1]"
definition aacute :: string where "aacute = [CHR 0xE1]"

text \<open>
  \<^verbatim>\<open>String.prototype.trim\<close>, on the white space and line terminators that are code
  units below 256.
\<close>

definition js_whitespace :: "char \<Rightarrow> bool" where
  "js_whitespace c = (c \<in> set [CHR 0x09, CHR 0x0A, CHR 0x0B, CHR 0x0C, CHR 0x0D, CHR 0x20, CHR 0xA0])"

definition trim :: "string \<Rightarrow> string" where
  "trim s = rev (dropWhile js_whitespace (rev (dropWhile js_whitespace s)))"

record RegisterInput =
  reg_email :: string
  reg_password :: string
  reg_name :: "string option"

record user_view =
  view_id :: nat
  view_email :: string
  view_name :: "string option"
  view_role :: string

record AuthResponse =
  resp_user :: user_view
  resp_accessToken :: token
  resp_refreshToken :: token

text \<open>\<^verbatim>\<open>role?.name || 'user'\<close>: a missing role or an empty name gives \<open>''user''\<close>.\<close>

definition roleName_or_user :: "role_row option \<Rightarrow> string" where
  "roleName_or_user r =
     (case r of
        None \<Rightarrow> ''user''
      | Some x \<Rightarrow> if role_name x = [] then ''user'' else role_name x)"

text \<open>\<^verbatim>\<open>passwordValidation.error || 'Contrasena invalida'\<close> (with its accents).\<close>

definition validation_message :: "strength \<Rightarrow> string" where
  "validation_message v =
     (case error v of
        None \<Rightarrow> ''Contrase'' @ ntilde @ ''a inv'' @ aacute @ ''lida''
      | Some m \<Rightarrow> if m = [] then ''Contrase'' @ ntilde @ ''a inv'' @ aacute @ ''lida'' else m)"

text \<open>
  \<open>register\<close> at clock \<open>now\<close> (milliseconds), with the salt Argon2 draws. A failure of a
  repository call propagates with the database as it is at that point.
\<close>

definition register :: "jwt_config \<Rightarrow> argon2 \<Rightarrow> nat \<Rightarrow> string \<Rightarrow> RegisterInput \<Rightarrow> db \<Rightarrow> (failure + AuthResponse) \<times> db" where
  "register cfg a now salt inp d =
     (if reg_email inp = [] \<or> trim (reg_email inp) = [] then
        (Inl (AppError (Some BAD_REQUEST) ''El email es requerido''), d)
      else
        (let passwordValidation = validatePasswordStrength (reg_password inp) 8 in
         if \<not> isValid passwordValidation then
           (Inl (AppError (Some BAD_REQUEST) (validation_message passwordValidation)), d)
         else if AuthRepository_emailExists d (reg_email inp) then
           (Inl (AppError (Some CONFLICT) ''Ya existe un usuario con este email''), d)
         else
           (let hashedPassword = hashPassword a salt (reg_password inp) in
            case AuthRepository_create d
                   \<lparr>data_email = reg_email inp, data_password = hashedPassword,
                    data_name = reg_name inp, data_roleId = None\<rparr> of
              (Inl e, d1) \<Rightarrow> (Inl e, d1)
            | (Inr (u, _), d1) \<Rightarrow>
                (let userWithRole = find (\<lambda>x. user_id x = user_id u) (users d1);
                     roleName = roleName_or_user
                                  (case userWithRole of None \<Rightarrow> None | Some x \<Rightarrow> role_of d1 x);
                     tokens = generateTokens cfg now
                                \<lparr>userId = user_id u, email = user_email u, role = Some roleName,
                                 iat = None, exp = None\<rparr>
                 in case AuthRepository_updateRefreshToken d1 (user_id u) (Some (refreshToken tokens)) of
                      (Inl e, d2) \<Rightarrow> (Inl e, d2)
                    | (Inr _, d2) \<Rightarrow>
                        (Inr \<lparr>resp_user = \<lparr>view_id = user_id u, view_email = user_email u,
                                            view_name = user_name u, view_role = roleName\<rparr>,
                              resp_accessToken = accessToken tokens,
                              resp_refreshToken = refreshToken tokens\<rparr>, d2)))))"

text \<open>
  \<open>refreshToken\<close> at clock \<open>now\<close>. The \<^verbatim>\<open>catch\<close> around \<open>verifyToken\<close> turns every
  failure of the verification into the same 401.
\<close>

definition refreshToken_service :: "jwt_config \<Rightarrow> nat \<Rightarrow> token \<Rightarrow> db \<Rightarrow> (failure + token_pair) \<times> db" where
  "refreshToken_service cfg now rt d =
     (if rt = Junk [] then
        (Inl (AppError (Some BAD_REQUEST) ''El token de refresco es requerido''), d)
      else
        (case verifyToken cfg now rt of
           Inl _ \<Rightarrow>
             (Inl (AppError (Some UNAUTHORIZED)
                     (''Token de refresco inv'' @ aacute @ ''lido o expirado'')), d)
         | Inr payload \<Rightarrow>
             (case AuthRepository_findById d (userId payload) of
                None \<Rightarrow> (Inl (AppError (Some NOT_FOUND) ''Usuario no encontrado''), d)
              | Some (u, r) \<Rightarrow>
                  if \<not> user_isActive u then
                    (Inl (AppError (Some FORBIDDEN) (''La cuenta est'' @ aacute @ '' desactivada'')), d)
                  else if user_refreshToken u \<noteq> Some rt then
                    (Inl (AppError (Some UNAUTHORIZED) (''Token de refresco inv'' @ aacute @ ''lido'')), d)
                  else
                    (let roleName = roleName_or_user r;
                         tokens = generateTokens cfg now
                                    \<lparr>userId = user_id u, email = user_email u, role = Some roleName,
                                     iat = None, exp = None\<rparr>
                     in case AuthRepository_updateRefreshToken d (user_id u) (Some (refreshToken tokens)) of
                          (Inl e, d1) \<Rightarrow> (Inl e, d1)
                        | (Inr _, d1) \<Rightarrow> (Inr tokens, d1)))))"

definition forgot_message :: string where
  "forgot_message =
     ''Si existe una cuenta con ese email, se ha enviado un enlace para restablecer la contrase''
       @ ntilde @ ''a.''"

text \<open>
  \<open>forgotPassword\<close> at clock \<open>now\<close> (milliseconds), with the reset token the random
  generator draws; the expiry is one hour later. The line written to the console is not
  part of the response.
\<close>

definition forgotPassword :: "nat \<Rightarrow> string \<Rightarrow> string \<Rightarrow> db \<Rightarrow> (failure + string) \<times> db" where
  "forgotPassword now resetToken e d =
     (if e = [] then (Inl (AppError (Some BAD_REQUEST) ''El email es requerido''), d)
      else
        (case AuthRepository_findByEmail d e of
           None \<Rightarrow> (Inr forgot_message, d)
         | Some u \<Rightarrow>
             (let resetExpires = now + 3600000 in
              case AuthRepository_updatePasswordResetToken d (user_id u) (Some resetToken)
                     (Some resetExpires) of
                (Inl err, d1) \<Rightarrow> (Inl err, d1)
              | (Inr _, d1) \<Rightarrow> (Inr forgot_message, d1))))"

record ChangePasswordInput =
  currentPassword :: string
  newPassword :: string

definition changePassword :: "argon2 \<Rightarrow> string \<Rightarrow> nat \<Rightarrow> ChangePasswordInput \<Rightarrow> db \<Rightarrow> (failure + string) \<times> db" where
  "changePassword a salt uid inp d =
     (if currentPassword inp = [] \<or> newPassword inp = [] then
        (Inl (AppError (Some BAD_REQUEST)
                (''La contrase'' @ ntilde @ ''a actual y la nueva contrase'' @ ntilde
                   @ ''a son requeridas'')), d)
      else
        (let passwordValidation = validatePasswordStrength (newPassword inp) 8 in
         if \<not> isValid passwordValidation then
           (Inl (AppError (Some BAD_REQUEST) (validation_message passwordValidation)), d)
         else
           (case AuthRepository_findByEmailWithPassword d
                   (case AuthRepository_findById d uid of
                      None \<Rightarrow> []
                    | Some (x, _) \<Rightarrow> user_email x) of
              None \<Rightarrow> (Inl (AppError (Some NOT_FOUND) ''Usuario no encontrado''), d)
            | Some (u, _) \<Rightarrow>
                if \<not> comparePassword a (currentPassword inp) (user_password u) then
                  (Inl (AppError (Some UNAUTHORIZED)
                          (''La contrase'' @ ntilde @ ''a actual es incorrecta'')), d)
                else
                  (let hashedPassword = hashPassword a salt (newPassword inp) in
                   case AuthRepository_updatePassword d (user_id u) hashedPassword of
                     (Inl e, d1) \<Rightarrow> (Inl e, d1)
                   | (Inr _, d1) \<Rightarrow>
                       (case AuthRepository_updateRefreshToken d1 (user_id u) None of
                          (Inl e, d2) \<Rightarrow> (Inl e, d2)
                        | (Inr _, d2) \<Rightarrow>
                            (Inr (''La contrase'' @ ntilde @ ''a ha sido cambiada exitosamente''), d2))))))"

section \<open>Notions of the specification\<close>

text \<open>
  A token is well formed and correctly signed when it is a signed serialisation under the
  configured secret; it is past its expiry when it carries an expiry that the clock (in
  whole seconds) has reached.
\<close>

definition well_signed :: "jwt_config \<Rightarrow> token \<Rightarrow> bool" where
  "well_signed cfg t = (case t of Jws k p \<Rightarrow> k = JWT_SECRET cfg | Junk s \<Rightarrow> False)"

definition past_expiry :: "nat \<Rightarrow> token \<Rightarrow> bool" where
  "past_expiry now t =
     (case t of
        Jws k p \<Rightarrow> (case exp p of None \<Rightarrow> False | Some e \<Rightarrow> e \<le> now div 1000)
      | Junk s \<Rightarrow> False)"

text \<open>The refresh token stored for a user, if any.\<close>

definition stored_refresh_token :: "db \<Rightarrow> nat \<Rightarrow> token option" where
  "stored_refresh_token d uid =
     (case AuthRepository_findById d uid of None \<Rightarrow> None | Some (u, r) \<Rightarrow> user_refreshToken u)"

text \<open>The user exists, has a role, and that role's active flag is off.\<close>

definition user_role_inactive :: "db \<Rightarrow> nat \<Rightarrow> bool" where
  "user_role_inactive d uid =
     (case AuthRepository_findById d uid of
        None \<Rightarrow> False
      | Some (u, r) \<Rightarrow> (case r of None \<Rightarrow> False | Some x \<Rightarrow> \<not> role_isActive x))"

text \<open>
  The system roles are in place: a role named "admin" and a role named "user" exist and
  are active (not soft-deleted).
\<close>

definition system_roles_in_place :: "db \<Rightarrow> bool" where
  "system_roles_in_place d =
     (list_ex (\<lambda>r. role_name r = ''admin'' \<and> role_isActive r) (roles d) \<and>
      list_ex (\<lambda>r. role_name r = ''user'' \<and> role_isActive r) (roles d))"


section \<open>Scenarios\<close>

text \<open>
  The database after \<open>initializeDefaultRolesAndPermissions\<close> on an empty one, written
  out: the thirteen standard permissions, the roles admin (1) and user (2), and their
  default join rows.
\<close>

definition standard_permission :: "nat \<Rightarrow> string \<Rightarrow> permission_row" where
  "standard_permission i n =
     \<lparr>permission_id = i, permission_name = n,
      permission_description = Some (''Permission: '' @ n), permission_isActive = True\<rparr>"

definition seeded_db :: db where
  "seeded_db =
     \<lparr>users = [],
      roles =
        [\<lparr>role_id = 1, role_name = ''admin'',
          role_description = Some ''Administrator role with full access'', role_isActive = True\<rparr>,
         \<lparr>role_id = 2, role_name = ''user'',
          role_description = Some ''Standard user role with basic permissions'',
          role_isActive = True\<rparr>],
      permissions =
        [standard_permission 1 ''users.read'', standard_permission 2 ''users.create'',
         standard_permission 3 ''users.update'', standard_permission 4 ''users.delete'',
         standard_permission 5 ''users.manage'', standard_permission 6 ''roles.read'',
         standard_permission 7 ''roles.create'', standard_permission 8 ''roles.update'',
         standard_permission 9 ''roles.delete'', standard_permission 10 ''roles.manage'',
         standard_permission 11 ''permissions.read'', standard_permission 12 ''permissions.manage'',
         standard_permission 13 ''admin.access''],
      rolePermissions =
        [\<lparr>rp_roleId = 1, rp_permissionId = 13\<rparr>, \<lparr>rp_roleId = 1, rp_permissionId = 5\<rparr>,
         \<lparr>rp_roleId = 1, rp_permissionId = 10\<rparr>, \<lparr>rp_roleId = 1, rp_permissionId = 12\<rparr>,
         \<lparr>rp_roleId = 2, rp_permissionId = 1\<rparr>],
      next_user_id = 1, next_role_id = 3, next_permission_id = 14\<rparr>"

text \<open>A stand-in for Argon2 in the scenarios: the salt, a separator, the password.\<close>

definition toy_argon2 :: argon2 where
  "toy_argon2 =
     \<lparr>argon2_hash = (\<lambda>salt password. salt @ ''$'' @ password),
      argon2_verify = (\<lambda>hash password.
         if CHR ''$'' \<in> set hash
         then Some (dropWhile (\<lambda>c. c \<noteq> CHR ''$'') hash = ''$'' @ password)
         else None)\<rparr>"

text \<open>
  The seed script's administrator: \<open>AuthRepository_create\<close> with the identifier of the
  admin role, on the seeded database.
\<close>

definition admin_db :: db where
  "admin_db =
     snd (AuthRepository_create seeded_db
            \<lparr>data_email = ''admin@example.com'',
             data_password = hashPassword toy_argon2 ''salt0'' ''Admin123!@#'',
             data_name = Some ''Administrator'', data_roleId = Some 1\<rparr>)"

text \<open>
  A role of its own with the permission \<open>users.read\<close> (identifier 1), a user holding it,
  and then the deletion of that role.
\<close>

definition editor_db :: db where
  "editor_db =
     snd (AuthRepository_create
            (snd (createRole seeded_db
                    \<lparr>input_name = ''editor'', input_description = None,
                     input_permissionIds = Some [1]\<rparr>))
            \<lparr>data_email = ''ed@x.com'',
             data_password = hashPassword toy_argon2 ''salt1'' ''Str0ng!Pw'',
             data_name = None, data_roleId = Some 3\<rparr>)"

definition editor_deleted_db :: db where
  "editor_deleted_db = snd (deleteRole editor_db 3)"

text \<open>The administrator's permission \<open>users.manage\<close> (identifier 5), soft-deleted.\<close>

definition manage_revoked_db :: db where
  "manage_revoked_db = snd (PermissionRepository_delete admin_db 5)"

text \<open>
  Registration of \<open>a@x.com\<close> on the seeded database at clock 5000 ms: the refresh token
  issued, and the database afterwards.
\<close>

definition alice_input :: RegisterInput where
  "alice_input = \<lparr>reg_email = ''a@x.com'', reg_password = ''Str0ng!Pw'', reg_name = None\<rparr>"

definition alice_token :: token where
  "alice_token =
     Jws ''your-secret-key-change-in-production''
       \<lparr>userId = 1, email = ''a@x.com'', role = Some ''user'', iat = Some 5, exp = Some 604805\<rparr>"

definition alice_row :: user_row where
  "alice_row =
     \<lparr>user_id = 1, user_email = ''a@x.com'', user_password = ''salt2$Str0ng!Pw'',
      user_name = None, user_isActive = True, user_roleId = Some 2,
      user_refreshToken = Some alice_token, user_passwordResetToken = None,
      user_passwordResetExpires = None\<rparr>"

definition registered_db :: db where
  "registered_db = seeded_db\<lparr>users := [alice_row], next_user_id := 2\<rparr>"

text \<open>The pair issued by a refresh at clock 9000 ms, and the database afterwards.\<close>

definition alice_pair9 :: token_pair where
  "alice_pair9 =
     \<lparr>accessToken = Jws ''your-secret-key-change-in-production''
        \<lparr>userId = 1, email = ''a@x.com'', role = Some ''user'', iat = Some 9, exp = Some 909\<rparr>,
      refreshToken = Jws ''your-secret-key-change-in-production''
        \<lparr>userId = 1, email = ''a@x.com'', role = Some ''user'', iat = Some 9, exp = Some 604809\<rparr>\<rparr>"

definition rotated_db :: db where
  "rotated_db =
     registered_db\<lparr>users := [alice_row\<lparr>user_refreshToken := Some (refreshToken alice_pair9)\<rparr>]\<rparr>"

text \<open>The pair issued by a refresh within second 5, the second of the registration.\<close>

definition alice_pair5 :: token_pair where
  "alice_pair5 =
     \<lparr>accessToken = Jws ''your-secret-key-change-in-production''
        \<lparr>userId = 1, email = ''a@x.com'', role = Some ''user'', iat = Some 5, exp = Some 905\<rparr>,
      refreshToken = alice_token\<rparr>"

text \<open>
  Two updates of the seeded roles: the admin role (identifier 1) set inactive, and the
  user role (identifier 2) renamed.
\<close>

definition deactivate_input :: UpdateRoleInput where
  "deactivate_input =
     \<lparr>upd_name = None, upd_description = None, upd_isActive = Some False,
      upd_permissionIds = None\<rparr>"

definition rename_input :: UpdateRoleInput where
  "rename_input =
     \<lparr>upd_name = Some ''basic'', upd_description = None, upd_isActive = None,
      upd_permissionIds = None\<rparr>"

definition admin_deactivated_db :: db where
  "admin_deactivated_db = snd (updateRole seeded_db 1 deactivate_input)"

definition user_renamed_db :: db where
  "user_renamed_db = snd (updateRole seeded_db 2 rename_input)"

text \<open>
  A database in which a role was created before the defaults were initialised: the
  identifiers 1, 2, 3 go to moderator, admin, user.
\<close>

definition moderator_first_db :: db where
  "moderator_first_db =
     snd (initializeDefaultRolesAndPermissions
            (snd (createRole empty_db
                    \<lparr>input_name = ''moderator'', input_description = None,
                     input_permissionIds = None\<rparr>)))"

section \<open>Lookups in tables\<close>

lemma find_Some_set: "find P xs = Some x \<Longrightarrow> x \<in> set xs \<and> P x"
  by (induction xs) (auto split: if_splits)

lemma distinct_map_eq:
  "distinct (map f xs) \<Longrightarrow> x \<in> set xs \<Longrightarrow> y \<in> set xs \<Longrightarrow> f x = f y \<Longrightarrow> x = y"
  by (meson distinct_map inj_on_def)


lemma find_map_role:
  "find (\<lambda>r. role_id r = k) (map (\<lambda>x. if role_id x = i then x\<lparr>role_isActive := b\<rparr> else x) rs) =
   map_option (\<lambda>x. if role_id x = i then x\<lparr>role_isActive := b\<rparr> else x)
     (find (\<lambda>r. role_id r = k) rs)"
  by (induction rs) auto

lemma find_map_user:
  assumes "\<And>x. user_id (f x) = user_id x"
  shows "find (\<lambda>x. user_id x = k) (map (\<lambda>x. if user_id x = i then f x else x) us) =
         map_option (\<lambda>x. if user_id x = i then f x else x) (find (\<lambda>x. user_id x = k) us)"
  using assms by (induction us) auto

lemma findById_id:
  assumes "AuthRepository_findById d i = Some (u, r)"
  shows "user_id u = i"
  using assms by (auto simp: AuthRepository_findById_def dest: find_Some_set)

lemma find_by_email_id:
  assumes "find (\<lambda>x. user_email x = e) (users d) = Some u"
  shows "\<exists>x. find (\<lambda>x. user_id x = user_id u) (users d) = Some x"
proof -
  from assms have "u \<in> set (users d)" by (auto dest: find_Some_set)
  then show ?thesis
    by (cases "find (\<lambda>x. user_id x = user_id u) (users d)") (auto simp: find_None_iff)
qed

section \<open>The scenarios, evaluated\<close>

lemma seeded_db_reached: "initializeDefaultRolesAndPermissions empty_db = (Inr (), seeded_db)"
  by code_simp

lemma seeded_proj:
  "users seeded_db = []"
  "next_user_id seeded_db = 1"
  "find (\<lambda>x. role_id x = 2) (roles seeded_db) =
     Some \<lparr>role_id = 2, role_name = ''user'',
           role_description = Some ''Standard user role with basic permissions'',
           role_isActive = True\<rparr>"
  by (simp_all add: seeded_db_def)

lemma strong_password: "validatePasswordStrength ''Str0ng!Pw'' 8 = \<lparr>isValid = True, error = None\<rparr>"
  by code_simp

lemma weak_password: "\<not> isValid (validatePasswordStrength ''abc'' 8)"
  by code_simp

lemma trim_alice: "trim ''a@x.com'' = ''a@x.com''"
  by code_simp

lemma register_alice:
  "register default_config toy_argon2 5000 ''salt2'' alice_input seeded_db =
     (Inr \<lparr>resp_user = \<lparr>view_id = 1, view_email = ''a@x.com'', view_name = None,
                        view_role = ''user''\<rparr>,
           resp_accessToken = accessToken alice_pair5,
           resp_refreshToken = alice_token\<rparr>,
      registered_db)"
  by (simp add: register_def alice_input_def strong_password trim_alice
      AuthRepository_emailExists_def seeded_proj AuthRepository_create_def hashPassword_def
      toy_argon2_def role_of_def roleName_or_user_def generateTokens_def
      generateAccessToken_def generateRefreshToken_def jwt_sign_def default_config_def
      AuthRepository_updateRefreshToken_def user_update_def alice_token_def alice_row_def
      Let_def registered_db_def alice_pair5_def)

lemma alice_verify:
  "now div 1000 < 604805 \<Longrightarrow>
   verifyToken default_config now alice_token =
     Inr \<lparr>userId = 1, email = ''a@x.com'', role = Some ''user'', iat = Some 5, exp = Some 604805\<rparr>"
  by (simp add: verifyToken_def jwt_verify_def default_config_def alice_token_def)

lemma registered_find:
  "AuthRepository_findById registered_db 1 =
     Some (alice_row,
           Some \<lparr>role_id = 2, role_name = ''user'',
                 role_description = Some ''Standard user role with basic permissions'',
                 role_isActive = True\<rparr>)"
  by (simp add: AuthRepository_findById_def registered_db_def alice_row_def role_of_def seeded_proj)

lemma refresh_at_9000:
  "refreshToken_service default_config 9000 alice_token registered_db = (Inr alice_pair9, rotated_db)"
  by (simp add: refreshToken_service_def alice_verify registered_find Let_def roleName_or_user_def
      generateTokens_def generateAccessToken_def generateRefreshToken_def jwt_sign_def
      AuthRepository_updateRefreshToken_def user_update_def rotated_db_def alice_pair9_def
      del: One_nat_def)
    (simp add: alice_row_def alice_token_def registered_db_def default_config_def)

lemma refresh_in_second_5:
  assumes "now div 1000 = 5"
  shows "refreshToken_service default_config now alice_token registered_db =
           (Inr alice_pair5, registered_db)"
  using assms
  by (simp add: refreshToken_service_def alice_verify registered_find Let_def roleName_or_user_def
      generateTokens_def generateAccessToken_def generateRefreshToken_def jwt_sign_def
      AuthRepository_updateRefreshToken_def user_update_def alice_pair5_def
      del: One_nat_def)
    (simp add: alice_row_def alice_token_def registered_db_def default_config_def)

section \<open>The order of the password rules\<close>

lemma decimal_8: "decimal 8 = ''8''"
  by code_simp

text \<open>
  C9. For every password, \<open>validatePasswordStrength\<close> with the default minimum length 8
  checks the rules in the fixed order length, uppercase, lowercase, digit, special
  character and answers with the message of the first rule that fails (and only that
  one); it answers valid exactly when all five rules hold.
\<close>

theorem validatePasswordStrength_first_failing_rule:
  "validatePasswordStrength pw 8 = validateStrength_spec pw \<and>
   (isValid (validatePasswordStrength pw 8) \<longleftrightarrow>
      (8 \<le> length pw \<and> regex_test upper_class pw \<and> regex_test lower_class pw \<and>
       regex_test digit_class pw \<and> regex_test special_class pw))"
  by (simp add: validatePasswordStrength_def validateStrength_spec_def policy_rules_def
      not_less del: decimal.simps add: decimal_8)

text \<open>
  Witness for C9: a password that meets all five rules, and one of eight lower-case
  letters and a digit, which fails three rules, of which only the first is reported.
\<close>

theorem validatePasswordStrength_first_failing_rule_witness:
  "isValid (validatePasswordStrength ''Str0ng!Pw'' 8) \<and>
   validatePasswordStrength ''abcdefg1'' 8 =
     \<lparr>isValid = False, error = Some ''Password must contain at least one uppercase letter''\<rparr>"
proof -
  have all: "8 \<le> length ''Str0ng!Pw'' \<and> regex_test upper_class ''Str0ng!Pw'' \<and>
             regex_test lower_class ''Str0ng!Pw'' \<and> regex_test digit_class ''Str0ng!Pw'' \<and>
             regex_test special_class ''Str0ng!Pw''"
    by code_simp
  have first: "validateStrength_spec ''abcdefg1'' =
     \<lparr>isValid = False, error = Some ''Password must contain at least one uppercase letter''\<rparr>"
    by code_simp
  have a: "isValid (validatePasswordStrength ''Str0ng!Pw'' 8)"
    using all validatePasswordStrength_first_failing_rule [of "''Str0ng!Pw''"] by blast
  have b: "validatePasswordStrength ''abcdefg1'' 8 = validateStrength_spec ''abcdefg1''"
    using validatePasswordStrength_first_failing_rule [of "''abcdefg1''"] by blast
  show ?thesis using a b first by simp
qed

section \<open>Deleting roles\<close>

text \<open>
  The guard of \<open>deleteRole\<close>: for every role identifier whose role is, at the time of the
  call, named "admin" or "user", \<open>deleteRole\<close> fails with the Bad Request status (400) and
  the message \<open>Cannot delete system roles\<close>, and the database is as before. \<open>deleteRole\<close>
  takes no caller, so this holds for any caller.
\<close>

lemma deleteRole_system_role_fails:
  assumes "RoleRepository_findById d i = Some r"
    and "role_name r = ''admin'' \<or> role_name r = ''user''"
  shows "deleteRole d i = (Inl (AppError (Some 400) ''Cannot delete system roles''), d)"
  using assms
  by (auto simp: deleteRole_def getRoleById_def ROLE_NAMES_ADMIN_def ROLE_NAMES_USER_def
      BAD_REQUEST_def)

text \<open>The guard at the two seeded roles, identifiers 1 and 2.\<close>

lemma deleteRole_system_role_fails_seeded:
  "map_option role_name (RoleRepository_findById seeded_db 1) = Some ''admin'' \<and>
   map_option role_name (RoleRepository_findById seeded_db 2) = Some ''user'' \<and>
   deleteRole seeded_db 1 = (Inl (AppError (Some 400) ''Cannot delete system roles''), seeded_db) \<and>
   deleteRole seeded_db 2 = (Inl (AppError (Some 400) ''Cannot delete system roles''), seeded_db)"
proof -
  obtain r1 where r1: "RoleRepository_findById seeded_db 1 = Some r1" "role_name r1 = ''admin''"
    by (simp add: RoleRepository_findById_def seeded_db_def)
  obtain r2 where r2: "RoleRepository_findById seeded_db 2 = Some r2" "role_name r2 = ''user''"
    by (simp add: RoleRepository_findById_def seeded_db_def)
  have "deleteRole seeded_db 1 = (Inl (AppError (Some 400) ''Cannot delete system roles''), seeded_db)"
    using deleteRole_system_role_fails [OF r1(1)] r1(2) by blast
  moreover
  have "deleteRole seeded_db 2 = (Inl (AppError (Some 400) ''Cannot delete system roles''), seeded_db)"
    using deleteRole_system_role_fails [OF r2(1)] r2(2) by blast
  ultimately show ?thesis using r1 r2 by simp
qed

text \<open>
  \<open>updateRole\<close> has no such guard: on any existing role, whatever its name, an update that
  sets \<open>isActive\<close> to false does what the repository's soft delete does.
\<close>

lemma updateRole_deactivates_like_delete:
  assumes "RoleRepository_findById d i = Some r"
  shows "updateRole d i deactivate_input = RoleRepository_delete d i"
  using assms
  by (simp add: updateRole_def getRoleById_def deactivate_input_def RoleRepository_update_def
      RoleRepository_delete_def)

text \<open>
  C3, the code at failing inputs. On the seeded database both system roles are in place
  and \<open>deleteRole\<close> on the admin role fails with 400. Yet \<open>updateRole\<close> on the admin role
  with \<open>isActive\<close> false succeeds and leaves the database the soft delete of that role
  would leave; and after \<open>updateRole\<close> has renamed the seeded user role, \<open>deleteRole\<close> on
  its identifier succeeds and soft-deletes it. In both resulting databases the system
  roles are no longer in place.
\<close>

theorem system_roles_deleted_through_updateRole:
  "system_roles_in_place seeded_db \<and>
   fst (deleteRole seeded_db 1) = Inl (AppError (Some 400) ''Cannot delete system roles'') \<and>
   updateRole seeded_db 1 deactivate_input =
     (Inr \<lparr>role_id = 1, role_name = ''admin'',
            role_description = Some ''Administrator role with full access'',
            role_isActive = False\<rparr>,
      snd (RoleRepository_delete seeded_db 1)) \<and>
   \<not> system_roles_in_place admin_deactivated_db \<and>
   fst (updateRole seeded_db 2 rename_input) =
     Inr \<lparr>role_id = 2, role_name = ''basic'',
           role_description = Some ''Standard user role with basic permissions'',
           role_isActive = True\<rparr> \<and>
   fst (deleteRole user_renamed_db 2) =
     Inr \<lparr>role_id = 2, role_name = ''basic'',
           role_description = Some ''Standard user role with basic permissions'',
           role_isActive = False\<rparr> \<and>
   map role_name (roles (snd (deleteRole user_renamed_db 2))) = [''admin'', ''basic''] \<and>
   map role_isActive (roles (snd (deleteRole user_renamed_db 2))) = [True, False] \<and>
   \<not> system_roles_in_place (snd (deleteRole user_renamed_db 2))"
proof -
  have a: "system_roles_in_place seeded_db" by code_simp
  have b: "fst (deleteRole seeded_db 1) = Inl (AppError (Some 400) ''Cannot delete system roles'')"
    by code_simp
  have c: "updateRole seeded_db 1 deactivate_input =
     (Inr \<lparr>role_id = 1, role_name = ''admin'',
            role_description = Some ''Administrator role with full access'',
            role_isActive = False\<rparr>,
      snd (RoleRepository_delete seeded_db 1))"
    by code_simp
  have d: "\<not> system_roles_in_place admin_deactivated_db" by code_simp
  have e: "fst (updateRole seeded_db 2 rename_input) =
     Inr \<lparr>role_id = 2, role_name = ''basic'',
           role_description = Some ''Standard user role with basic permissions'',
           role_isActive = True\<rparr>"
    by code_simp
  have f: "fst (deleteRole user_renamed_db 2) =
     Inr \<lparr>role_id = 2, role_name = ''basic'',
           role_description = Some ''Standard user role with basic permissions'',
           role_isActive = False\<rparr>"
    by code_simp
  have g: "map role_name (roles (snd (deleteRole user_renamed_db 2))) = [''admin'', ''basic'']"
    by code_simp
  have h: "map role_isActive (roles (snd (deleteRole user_renamed_db 2))) = [True, False]"
    by code_simp
  have i: "\<not> system_roles_in_place (snd (deleteRole user_renamed_db 2))" by code_simp
  show ?thesis using a b c d e f g h i by blast
qed

lemma role_of_soft_delete:
  "role_of (d\<lparr>roles := map (\<lambda>x. if role_id x = i then x\<lparr>role_isActive := False\<rparr> else x) (roles d)\<rparr>) u =
   map_option (\<lambda>x. if role_id x = i then x\<lparr>role_isActive := False\<rparr> else x) (role_of d u)"
  by (simp add: role_of_def find_map_role split: option.splits)

lemma userHasPermission_soft_delete:
  "userHasPermission
     (d\<lparr>roles := map (\<lambda>x. if role_id x = i then x\<lparr>role_isActive := False\<rparr> else x) (roles d)\<rparr>) u p =
   userHasPermission d u p"
  by (auto simp: userHasPermission_def role_of_soft_delete RoleRepository_hasPermission_def
      split: option.splits)

lemma deleteRole_other_role:
  assumes "RoleRepository_findById d i = Some r"
    and "role_name r \<noteq> ''admin''" and "role_name r \<noteq> ''user''"
  shows "deleteRole d i =
           (Inr (r\<lparr>role_isActive := False\<rparr>),
            d\<lparr>roles := map (\<lambda>x. if role_id x = i then x\<lparr>role_isActive := False\<rparr> else x) (roles d)\<rparr>)"
  using assms
  by (auto simp: deleteRole_def getRoleById_def ROLE_NAMES_ADMIN_def ROLE_NAMES_USER_def
      RoleRepository_delete_def role_update_def RoleRepository_findById_def)

text \<open>
  C10. \<open>deleteRole\<close> on a role that is not a system role is a soft delete: it succeeds,
  and the only change to the database is that the rows of that identifier in the role
  table have \<open>isActive\<close> false. The role row is still found, the join rows, the users (and
  so their assignment to the role) and the permissions are unchanged, and every
  permission check gives the answer it gave before.
\<close>

theorem deleteRole_soft_delete_frame:
  assumes "RoleRepository_findById d i = Some r"
    and "role_name r \<noteq> ''admin''" and "role_name r \<noteq> ''user''"
  shows "fst (deleteRole d i) = Inr (r\<lparr>role_isActive := False\<rparr>) \<and>
         snd (deleteRole d i) =
           d\<lparr>roles := map (\<lambda>x. if role_id x = i then x\<lparr>role_isActive := False\<rparr> else x) (roles d)\<rparr> \<and>
         RoleRepository_findById (snd (deleteRole d i)) i = Some (r\<lparr>role_isActive := False\<rparr>) \<and>
         rolePermissions (snd (deleteRole d i)) = rolePermissions d \<and>
         users (snd (deleteRole d i)) = users d \<and>
         permissions (snd (deleteRole d i)) = permissions d \<and>
         userHasPermission (snd (deleteRole d i)) u p = userHasPermission d u p"
proof -
  have id: "role_id r = i"
    using assms(1) by (auto simp: RoleRepository_findById_def dest: find_Some_set)
  show ?thesis
    using assms(1) id
    by (simp add: deleteRole_other_role [OF assms] userHasPermission_soft_delete
        RoleRepository_findById_def find_map_role)
qed

text \<open>
  Witness for C10: the editor role (identifier 3) of \<open>editor_db\<close>, held by user 1 and
  granting \<open>users.read\<close>. After its deletion the user still has the permission.
\<close>

theorem deleteRole_soft_delete_frame_witness:
  "map_option role_name (RoleRepository_findById editor_db 3) = Some ''editor'' \<and>
   map_option role_isActive (RoleRepository_findById (snd (deleteRole editor_db 3)) 3) = Some False \<and>
   rolePermissions (snd (deleteRole editor_db 3)) = rolePermissions editor_db \<and>
   users (snd (deleteRole editor_db 3)) = users editor_db \<and>
   userHasPermission (snd (deleteRole editor_db 3)) 1 ''users.read'' = True"
proof -
  define r where
    "r = \<lparr>role_id = 3, role_name = ''editor'', role_description = None, role_isActive = True\<rparr>"
  have r: "RoleRepository_findById editor_db 3 = Some r" unfolding r_def by code_simp
  have n: "role_name r \<noteq> ''admin''" "role_name r \<noteq> ''user''" by (simp_all add: r_def)
  have before: "userHasPermission editor_db 1 ''users.read'' = True" by code_simp
  note frame = deleteRole_soft_delete_frame [OF r n, of 1 "''users.read''"]
  from frame have f3:
    "RoleRepository_findById (snd (deleteRole editor_db 3)) 3 = Some (r\<lparr>role_isActive := False\<rparr>)"
    by blast
  from frame have f4: "rolePermissions (snd (deleteRole editor_db 3)) = rolePermissions editor_db"
    by blast
  from frame have f5: "users (snd (deleteRole editor_db 3)) = users editor_db"
    by blast
  from frame have f7:
    "userHasPermission (snd (deleteRole editor_db 3)) 1 ''users.read'' =
     userHasPermission editor_db 1 ''users.read''"
    by blast
  show ?thesis using r f3 f4 f5 f7 before by (simp add: r_def)
qed

section \<open>Permission resolution\<close>

lemma hasPermission_active_row:
  assumes "RoleRepository_hasPermission d rid p"
  shows "\<exists>q \<in> set (permissions d). permission_name q = p \<and> permission_isActive q"
  using assms
  by (auto simp: RoleRepository_hasPermission_def list_ex_iff split: option.splits
      dest: find_Some_set)

lemma hasPermission_false:
  assumes "distinct (map permission_name (permissions d))"
    and "case PermissionRepository_findByName d p of
           None \<Rightarrow> True
         | Some q \<Rightarrow> \<not> permission_isActive q"
  shows "\<not> RoleRepository_hasPermission d rid p"
proof
  assume "RoleRepository_hasPermission d rid p"
  then obtain q where q: "q \<in> set (permissions d)" "permission_name q = p" "permission_isActive q"
    using hasPermission_active_row by blast
  show False
  proof (cases "PermissionRepository_findByName d p")
    case None
    then show False using q by (auto simp: PermissionRepository_findByName_def find_None_iff)
  next
    case (Some q')
    then have "q' \<in> set (permissions d)" "permission_name q' = p"
      by (auto simp: PermissionRepository_findByName_def dest: find_Some_set)
    with q assms(1) have "q' = q" by (metis distinct_map_eq)
    with Some assms(2) q show False by simp
  qed
qed

text \<open>
  C1, as amended. On a database whose permission names are unique,
  \<open>userHasPermission u p\<close> is false whenever the user does not exist, the user has no role,
  no permission is named \<open>p\<close>, or the permission named \<open>p\<close> is inactive. (The active flag
  of the role is not among the conditions: the code does not read it.)
\<close>

theorem userHasPermission_fail_closed:
  assumes "distinct (map permission_name (permissions d))"
    and "find (\<lambda>x. user_id x = u) (users d) = None \<or>
         (\<exists>x. find (\<lambda>x. user_id x = u) (users d) = Some x \<and> role_of d x = None) \<or>
         PermissionRepository_findByName d p = None \<or>
         (\<exists>q. PermissionRepository_findByName d p = Some q \<and> \<not> permission_isActive q)"
  shows "userHasPermission d u p = False"
  using assms(2)
proof (elim disjE exE conjE)
  assume "PermissionRepository_findByName d p = None"
  then show ?thesis
    using hasPermission_false [OF assms(1), of p]
    by (auto simp: userHasPermission_def split: option.splits)
next
  fix q
  assume "PermissionRepository_findByName d p = Some q" "\<not> permission_isActive q"
  then show ?thesis
    using hasPermission_false [OF assms(1), of p]
    by (auto simp: userHasPermission_def split: option.splits)
qed (auto simp: userHasPermission_def)

text \<open>
  Witness for C1: the administrator of \<open>admin_db\<close> has \<open>users.manage\<close>; once that
  permission is soft-deleted the check is false, as it is for a name no permission has
  and for a user that does not exist.
\<close>

theorem userHasPermission_fail_closed_witness:
  "userHasPermission admin_db 1 ''users.manage'' = True \<and>
   distinct (map permission_name (permissions manage_revoked_db)) \<and>
   map_option permission_isActive (PermissionRepository_findByName manage_revoked_db ''users.manage'')
     = Some False \<and>
   userHasPermission manage_revoked_db 1 ''users.manage'' = False \<and>
   PermissionRepository_findByName manage_revoked_db ''nonexistent.perm'' = None \<and>
   userHasPermission manage_revoked_db 1 ''nonexistent.perm'' = False \<and>
   find (\<lambda>x. user_id x = 7) (users manage_revoked_db) = None \<and>
   userHasPermission manage_revoked_db 7 ''admin.access'' = False"
proof -
  have before: "userHasPermission admin_db 1 ''users.manage'' = True" by code_simp
  have names: "distinct (map permission_name (permissions manage_revoked_db))" by code_simp
  define q where
    "q = \<lparr>permission_id = 5, permission_name = ''users.manage'',
          permission_description = Some ''Permission: users.manage'', permission_isActive = False\<rparr>"
  have q: "PermissionRepository_findByName manage_revoked_db ''users.manage'' = Some q"
      "\<not> permission_isActive q"
    unfolding q_def by code_simp+
  have none: "PermissionRepository_findByName manage_revoked_db ''nonexistent.perm'' = None"
    by code_simp
  have nouser: "find (\<lambda>x. user_id x = 7) (users manage_revoked_db) = None" by code_simp
  have a: "userHasPermission manage_revoked_db 1 ''users.manage'' = False"
    using userHasPermission_fail_closed [OF names, of 1 "''users.manage''"] q by blast
  have b: "userHasPermission manage_revoked_db 1 ''nonexistent.perm'' = False"
    using userHasPermission_fail_closed [OF names, of 1 "''nonexistent.perm''"] none by blast
  have c: "userHasPermission manage_revoked_db 7 ''admin.access'' = False"
    using userHasPermission_fail_closed [OF names, of 7 "''admin.access''"] nouser by blast
  show ?thesis using before names q none nouser a b c by simp
qed

text \<open>
  Counterexample to C1 as stated: in \<open>editor_deleted_db\<close> the role of user 1 is inactive
  (it was deleted), and the user still has the permission \<open>users.read\<close>.
\<close>

theorem userHasPermission_inactive_role_counterexample:
  "user_role_inactive editor_deleted_db 1 \<and>
   userHasPermission editor_deleted_db 1 ''users.read'' = True"
  by code_simp





section \<open>Token verification\<close>

text \<open>
  C7. For every token and clock, \<open>verifyToken\<close> fails with the error \<open>Token expired\<close>
  exactly when the token is well formed, correctly signed and past its expiry, and with
  the error \<open>Invalid token\<close> exactly when its shape or signature fails; it returns the
  payload otherwise. The two errors differ, so a caller can tell them apart.
\<close>

theorem verifyToken_error_kinds:
  "(verifyToken cfg now t = Inl (AppError None ''Token expired'') \<longleftrightarrow>
      well_signed cfg t \<and> past_expiry now t) \<and>
   (verifyToken cfg now t = Inl (AppError None ''Invalid token'') \<longleftrightarrow> \<not> well_signed cfg t) \<and>
   ((\<exists>p. verifyToken cfg now t = Inr p) \<longleftrightarrow> well_signed cfg t \<and> \<not> past_expiry now t) \<and>
   AppError None ''Token expired'' \<noteq> AppError None ''Invalid token''"
  by (cases t)
    (auto simp: verifyToken_def jwt_verify_def well_signed_def past_expiry_def
      instanceof_TokenExpiredError_def instanceof_JsonWebTokenError_def split: option.splits)

text \<open>
  Witness for C7: the refresh token of the registration, at the second of its expiry; the
  same payload under another key; and a string that is no token.
\<close>

theorem verifyToken_error_kinds_witness:
  "verifyToken default_config 604805000 alice_token = Inl (AppError None ''Token expired'') \<and>
   verifyToken default_config 6000
     (Jws ''another key''
        \<lparr>userId = 1, email = ''a@x.com'', role = Some ''admin'', iat = Some 5, exp = Some 604805\<rparr>)
     = Inl (AppError None ''Invalid token'') \<and>
   verifyToken default_config 6000 (Junk ''abc.def.ghi'') = Inl (AppError None ''Invalid token'')"
proof -
  have a: "well_signed default_config alice_token \<and> past_expiry 604805000 alice_token"
    by (simp add: well_signed_def past_expiry_def default_config_def alice_token_def)
  have b: "\<not> well_signed default_config
              (Jws ''another key''
                 \<lparr>userId = 1, email = ''a@x.com'', role = Some ''admin'', iat = Some 5,
                  exp = Some 604805\<rparr>)"
    by (simp add: well_signed_def default_config_def)
  have c: "\<not> well_signed default_config (Junk ''abc.def.ghi'')"
    by (simp add: well_signed_def)
  show ?thesis
    using a b c
      verifyToken_error_kinds [of default_config 604805000 alice_token]
      verifyToken_error_kinds [of default_config 6000
        "Jws ''another key''
           \<lparr>userId = 1, email = ''a@x.com'', role = Some ''admin'', iat = Some 5,
            exp = Some 604805\<rparr>"]
      verifyToken_error_kinds [of default_config 6000 "Junk ''abc.def.ghi''"]
    by blast
qed

section \<open>Refresh rotation\<close>

lemma findById_after_update:
  assumes "AuthRepository_updateRefreshToken d i t = (Inr y, d')"
  shows "AuthRepository_findById d' i =
           map_option (\<lambda>(x, r). (x\<lparr>user_refreshToken := t\<rparr>, r)) (AuthRepository_findById d i)"
  using assms
  by (auto simp: AuthRepository_updateRefreshToken_def user_update_def AuthRepository_findById_def
      find_map_user role_of_def split: option.splits dest: find_Some_set)

lemma refresh_successE:
  assumes "refreshToken_service cfg now rt d = (Inr res, d')"
  obtains payload u r y where
    "verifyToken cfg now rt = Inr payload"
    "AuthRepository_findById d (userId payload) = Some (u, r)"
    "user_isActive u" "user_refreshToken u = Some rt"
    "res = generateTokens cfg now
             \<lparr>userId = user_id u, email = user_email u, role = Some (roleName_or_user r),
              iat = None, exp = None\<rparr>"
    "AuthRepository_updateRefreshToken d (user_id u) (Some (refreshToken res)) = (Inr y, d')"
  using assms
  by (auto simp: refreshToken_service_def Let_def
      split: if_splits sum.splits option.splits prod.splits)

lemma verifyToken_Inr:
  assumes "verifyToken cfg now t = Inr payload"
  shows "t = Jws (JWT_SECRET cfg) payload"
  using assms
  by (cases t)
    (auto simp: verifyToken_def jwt_verify_def instanceof_TokenExpiredError_def
      instanceof_JsonWebTokenError_def split: if_splits option.splits)

lemma verifyToken_signed_Inl:
  assumes "verifyToken cfg now (Jws (JWT_SECRET cfg) p) = Inl e"
  shows "e = AppError None ''Token expired''"
  using assms
  by (auto simp: verifyToken_def jwt_verify_def instanceof_TokenExpiredError_def
      instanceof_JsonWebTokenError_def split: if_splits option.splits)

text \<open>
  A refresh in a second other than the one the presented token was issued in gives a
  different refresh token.
\<close>

lemma rotation_changes_token:
  assumes "refreshToken_service cfg now (Jws k p) d = (Inr res, d')"
    and "iat p \<noteq> Some (now div 1000)"
  shows "refreshToken res \<noteq> Jws k p"
  using assms
  by (elim refresh_successE) (auto simp: generateTokens_def generateRefreshToken_def jwt_sign_def)

text \<open>
  C2, as amended. If \<open>RefreshToken(rt1)\<close> succeeds and produces a pair whose refresh token
  \<open>rt2\<close> differs from \<open>rt1\<close>, then the user's stored refresh token is \<open>rt2\<close>, and a subsequent
  \<open>RefreshToken(rt1)\<close>, at any later clock, fails with Unauthorized (401) and leaves the
  database as it is: with the mismatch message while \<open>rt1\<close> has not expired, with the
  invalid-or-expired message once it has.
\<close>

theorem refreshToken_rotation:
  assumes ok: "refreshToken_service cfg now rt1 d = (Inr res, d')"
    and new: "refreshToken res \<noteq> rt1"
  shows "(\<exists>p. rt1 = Jws (JWT_SECRET cfg) p \<and>
              stored_refresh_token d' (userId p) = Some (refreshToken res)) \<and>
         refreshToken_service cfg now2 rt1 d' =
           (Inl (AppError (Some 401)
                   (if verifyToken cfg now2 rt1 = Inl (AppError None ''Token expired'')
                    then ''Token de refresco inv'' @ aacute @ ''lido o expirado''
                    else ''Token de refresco inv'' @ aacute @ ''lido'')), d')"
proof -
  from ok obtain payload u r y where
    v: "verifyToken cfg now rt1 = Inr payload" and
    f: "AuthRepository_findById d (userId payload) = Some (u, r)" and
    act: "user_isActive u" and
    upd: "AuthRepository_updateRefreshToken d (user_id u) (Some (refreshToken res)) = (Inr y, d')"
    by (rule refresh_successE)
  have uid: "user_id u = userId payload" using f by (rule findById_id)
  have f': "AuthRepository_findById d' (userId payload) =
              Some (u\<lparr>user_refreshToken := Some (refreshToken res)\<rparr>, r)"
    using findById_after_update [OF upd] f uid by simp
  have rt1: "rt1 = Jws (JWT_SECRET cfg) payload" using v by (rule verifyToken_Inr)
  have stored: "stored_refresh_token d' (userId payload) = Some (refreshToken res)"
    using f' by (simp add: stored_refresh_token_def)
  have nonempty: "rt1 \<noteq> Junk []" using rt1 by simp
  have again: "refreshToken_service cfg now2 rt1 d' =
           (Inl (AppError (Some 401)
                   (if verifyToken cfg now2 rt1 = Inl (AppError None ''Token expired'')
                    then ''Token de refresco inv'' @ aacute @ ''lido o expirado''
                    else ''Token de refresco inv'' @ aacute @ ''lido'')), d')"
  proof (cases "verifyToken cfg now2 rt1")
    case (Inl e)
    then have "e = AppError None ''Token expired''"
      using rt1 verifyToken_signed_Inl by blast
    with Inl nonempty show ?thesis
      by (simp add: refreshToken_service_def UNAUTHORIZED_def)
  next
    case (Inr p2)
    then have "rt1 = Jws (JWT_SECRET cfg) p2" by (rule verifyToken_Inr)
    then have "p2 = payload" using rt1 by simp
    with Inr nonempty f' act new show ?thesis
      by (simp add: refreshToken_service_def UNAUTHORIZED_def)
  qed
  show ?thesis using rt1 stored again by blast
qed

text \<open>
  Witness for C2: the token of the registration (issued in second 5) refreshed at clock
  9000 ms, and presented again at clock 10000 ms.
\<close>

theorem refreshToken_rotation_witness:
  "refreshToken_service default_config 9000 alice_token registered_db = (Inr alice_pair9, rotated_db) \<and>
   refreshToken alice_pair9 \<noteq> alice_token \<and>
   stored_refresh_token rotated_db 1 = Some (refreshToken alice_pair9) \<and>
   refreshToken_service default_config 10000 alice_token rotated_db =
     (Inl (AppError (Some 401) (''Token de refresco inv'' @ aacute @ ''lido'')), rotated_db)"
proof -
  have new: "refreshToken alice_pair9 \<noteq> alice_token"
    by (simp add: alice_pair9_def alice_token_def)
  have v: "verifyToken default_config 10000 alice_token \<noteq> Inl (AppError None ''Token expired'')"
    by (simp add: alice_verify)
  note rot = refreshToken_rotation [OF refresh_at_9000 new, of 10000]
  from rot obtain p where p: "alice_token = Jws (JWT_SECRET default_config) p"
    "stored_refresh_token rotated_db (userId p) = Some (refreshToken alice_pair9)"
    by blast
  from p(1) have "userId p = 1" by (auto simp: alice_token_def)
  with p(2) have stored: "stored_refresh_token rotated_db 1 = Some (refreshToken alice_pair9)"
    by simp
  from rot v have again:
    "refreshToken_service default_config 10000 alice_token rotated_db =
       (Inl (AppError (Some 401) (''Token de refresco inv'' @ aacute @ ''lido'')), rotated_db)"
    by simp
  show ?thesis using refresh_at_9000 new stored again by blast
qed

text \<open>
  Counterexample to C2 as stated: a refresh in the second in which the presented token
  was issued signs the same payload with the same \<open>iat\<close> and \<open>exp\<close>, so the new refresh
  token is the presented one, it stays the stored one, and presenting it again succeeds.
\<close>

theorem refreshToken_same_second_counterexample:
  "fst (register default_config toy_argon2 5000 ''salt2'' alice_input seeded_db) =
     Inr \<lparr>resp_user = \<lparr>view_id = 1, view_email = ''a@x.com'', view_name = None,
                       view_role = ''user''\<rparr>,
          resp_accessToken = accessToken alice_pair5, resp_refreshToken = alice_token\<rparr> \<and>
   snd (register default_config toy_argon2 5000 ''salt2'' alice_input seeded_db) = registered_db \<and>
   refreshToken_service default_config 5500 alice_token registered_db =
     (Inr alice_pair5, registered_db) \<and>
   refreshToken alice_pair5 = alice_token \<and>
   stored_refresh_token registered_db 1 = Some alice_token \<and>
   refreshToken_service default_config 5900 alice_token registered_db =
     (Inr alice_pair5, registered_db)"
proof -
  have s: "stored_refresh_token registered_db 1 = Some alice_token"
    by (simp add: stored_refresh_token_def registered_find alice_row_def del: One_nat_def)
  have e: "refreshToken alice_pair5 = alice_token" by (simp add: alice_pair5_def)
  show ?thesis
    using s e refresh_in_second_5 [of 5500] refresh_in_second_5 [of 5900]
    by (simp add: register_alice)
qed

section \<open>Forgotten and changed passwords\<close>

text \<open>
  C5. For every database, every two non-empty email addresses (in particular one of an
  existing user and one of no user), and whatever the clocks and the reset tokens drawn
  in the two runs, \<open>forgotPassword\<close> succeeds in both runs with the same message: the
  response does not depend on whether the account exists.
\<close>

theorem forgotPassword_same_message:
  assumes "e1 \<noteq> []" and "e2 \<noteq> []"
  shows "fst (forgotPassword now1 tok1 e1 d) = Inr forgot_message \<and>
         fst (forgotPassword now2 tok2 e2 d) = Inr forgot_message"
proof -
  have one: "fst (forgotPassword now tok e d) = Inr forgot_message" if "e \<noteq> []" for now tok e
  proof (cases "AuthRepository_findByEmail d e")
    case None
    then show ?thesis using that by (simp add: forgotPassword_def)
  next
    case (Some u)
    then obtain x where "find (\<lambda>x. user_id x = user_id u) (users d) = Some x"
      using find_by_email_id [of e d u] unfolding AuthRepository_findByEmail_def by blast
    then show ?thesis
      using that Some
      by (simp add: forgotPassword_def AuthRepository_updatePasswordResetToken_def
          user_update_def)
  qed
  show ?thesis using one [OF assms(1)] one [OF assms(2)] by simp
qed

text \<open>
  Witness for C5: on \<open>registered_db\<close>, the address of the registered user (for which the
  reset token is stored) and an address of no user (for which nothing changes).
\<close>

theorem forgotPassword_same_message_witness:
  "AuthRepository_findByEmail registered_db ''a@x.com'' \<noteq> None \<and>
   AuthRepository_findByEmail registered_db ''nobody@x.com'' = None \<and>
   fst (forgotPassword 7000 ''c0ffee'' ''a@x.com'' registered_db) = Inr forgot_message \<and>
   fst (forgotPassword 8000 ''f00d'' ''nobody@x.com'' registered_db) = Inr forgot_message \<and>
   map user_passwordResetToken (users (snd (forgotPassword 7000 ''c0ffee'' ''a@x.com'' registered_db)))
     = [Some ''c0ffee''] \<and>
   snd (forgotPassword 8000 ''f00d'' ''nobody@x.com'' registered_db) = registered_db"
proof -
  have a: "AuthRepository_findByEmail registered_db ''a@x.com'' = Some alice_row"
    by (simp add: AuthRepository_findByEmail_def registered_db_def alice_row_def)
  have b: "AuthRepository_findByEmail registered_db ''nobody@x.com'' = None"
    by (simp add: AuthRepository_findByEmail_def registered_db_def alice_row_def)
  have c: "map user_passwordResetToken
             (users (snd (forgotPassword 7000 ''c0ffee'' ''a@x.com'' registered_db))) = [Some ''c0ffee'']"
    by (simp add: forgotPassword_def a AuthRepository_updatePasswordResetToken_def user_update_def)
      (simp add: registered_db_def alice_row_def)
  have d: "snd (forgotPassword 8000 ''f00d'' ''nobody@x.com'' registered_db) = registered_db"
    by (simp add: forgotPassword_def b)
  have n: "''a@x.com'' \<noteq> []" "''nobody@x.com'' \<noteq> []" by simp_all
  note same = forgotPassword_same_message [OF n, of 7000 "''c0ffee''" registered_db 8000 "''f00d''"]
  show ?thesis using a b c d same by simp
qed

text \<open>
  C6. For every user identifier and every new password that fails the strength policy,
  \<open>changePassword\<close> fails with Bad Request (400) and returns the database it was given:
  no password hash, refresh token or reset-token field has changed.
\<close>

theorem changePassword_weak_password_no_mutation:
  assumes "\<not> isValid (validatePasswordStrength (newPassword inp) 8)"
  shows "changePassword a salt uid inp d =
           (Inl (AppError (Some 400)
                   (if currentPassword inp = [] \<or> newPassword inp = [] then
                      ''La contrase'' @ ntilde @ ''a actual y la nueva contrase'' @ ntilde
                        @ ''a son requeridas''
                    else validation_message (validatePasswordStrength (newPassword inp) 8))), d)"
  using assms by (simp add: changePassword_def BAD_REQUEST_def Let_def)

text \<open>
  Witness for C6: the registered user changes the password to \<open>abc\<close>, giving the correct
  current password.
\<close>

theorem changePassword_weak_password_no_mutation_witness:
  "comparePassword toy_argon2 ''Str0ng!Pw'' (user_password alice_row) \<and>
   \<not> isValid (validatePasswordStrength ''abc'' 8) \<and>
   changePassword toy_argon2 ''salt3'' 1
       \<lparr>currentPassword = ''Str0ng!Pw'', newPassword = ''abc''\<rparr> registered_db =
     (Inl (AppError (Some 400) ''Password must be at least 8 characters long''), registered_db)"
proof -
  have c: "comparePassword toy_argon2 ''Str0ng!Pw'' (user_password alice_row)"
    by (simp add: comparePassword_def toy_argon2_def alice_row_def)
  have m: "validation_message (validatePasswordStrength ''abc'' 8) =
             ''Password must be at least 8 characters long''"
    by code_simp
  have w: "\<not> isValid (validatePasswordStrength
                        (newPassword \<lparr>currentPassword = ''Str0ng!Pw'', newPassword = ''abc''\<rparr>) 8)"
    using weak_password by simp
  note r = changePassword_weak_password_no_mutation [OF w, of toy_argon2 "''salt3''" 1 registered_db]
  show ?thesis using c weak_password r m by simp
qed

section \<open>The role of a registered user\<close>

lemma moderator_first_proj:
  "users moderator_first_db = []"
  "next_user_id moderator_first_db = 1"
  "find (\<lambda>x. role_id x = 2) (roles moderator_first_db) =
     Some \<lparr>role_id = 2, role_name = ''admin'',
           role_description = Some ''Administrator role with full access'',
           role_isActive = True\<rparr>"
  by code_simp+

lemma register_on_moderator_first:
  "register default_config toy_argon2 5000 ''salt2'' alice_input moderator_first_db =
     (Inr \<lparr>resp_user = \<lparr>view_id = 1, view_email = ''a@x.com'', view_name = None,
                        view_role = ''admin''\<rparr>,
           resp_accessToken = Jws ''your-secret-key-change-in-production''
             \<lparr>userId = 1, email = ''a@x.com'', role = Some ''admin'', iat = Some 5, exp = Some 905\<rparr>,
           resp_refreshToken = Jws ''your-secret-key-change-in-production''
             \<lparr>userId = 1, email = ''a@x.com'', role = Some ''admin'', iat = Some 5,
              exp = Some 604805\<rparr>\<rparr>,
      moderator_first_db
        \<lparr>users := [alice_row\<lparr>user_refreshToken :=
                      Some (Jws ''your-secret-key-change-in-production''
                        \<lparr>userId = 1, email = ''a@x.com'', role = Some ''admin'', iat = Some 5,
                         exp = Some 604805\<rparr>)\<rparr>],
          next_user_id := 2\<rparr>)"
  by (simp add: register_def alice_input_def strong_password trim_alice
      AuthRepository_emailExists_def moderator_first_proj AuthRepository_create_def
      hashPassword_def toy_argon2_def role_of_def roleName_or_user_def generateTokens_def
      generateAccessToken_def generateRefreshToken_def jwt_sign_def default_config_def
      AuthRepository_updateRefreshToken_def user_update_def alice_row_def Let_def)

text \<open>
  Whatever the database, a successful registration stores the role identifier 2 for the
  new user: the name of the role is never looked up.
\<close>

lemma register_stores_role_2:
  assumes "register cfg a now salt inp d = (Inr resp, d')"
  shows "\<exists>u \<in> set (users d'). user_email u = reg_email inp \<and> user_roleId u = Some 2"
  using assms
  by (auto simp: register_def Let_def AuthRepository_create_def
      AuthRepository_updateRefreshToken_def user_update_def
      split: if_splits prod.splits sum.splits option.splits)

text \<open>
  C8, the code at a failing input. In \<open>moderator_first_db\<close> (a role was created before the
  defaults were initialised) the role named "user" has identifier 3 and identifier 2 is
  the role named "admin". Registration without an explicit role stores role identifier
  2, and the response and the tokens name the role "admin".
\<close>

theorem register_default_role_is_identifier_2:
  "map_option role_id (RoleRepository_findByName moderator_first_db ''user'') = Some 3 \<and>
   map_option role_name (RoleRepository_findById moderator_first_db 2) = Some ''admin'' \<and>
   map_sum id (\<lambda>r. view_role (resp_user r))
     (fst (register default_config toy_argon2 5000 ''salt2'' alice_input moderator_first_db))
     = Inr ''admin'' \<and>
   map user_roleId
     (users (snd (register default_config toy_argon2 5000 ''salt2'' alice_input moderator_first_db)))
     = [Some 2]"
proof -
  have a: "map_option role_id (RoleRepository_findByName moderator_first_db ''user'') = Some 3"
    by code_simp
  have b: "map_option role_name (RoleRepository_findById moderator_first_db 2) = Some ''admin''"
    by code_simp
  show ?thesis using a b by (simp add: register_on_moderator_first alice_row_def)
qed

end
